theory Spec2Isabelle
  imports Complex_Main "HOL-Library.Sublist"
begin

section \<open>Python values: exceptions, outcomes of a call, observable effects\<close>

text \<open>
  An exception is its class name together with the names of the classes it inherits from.
  An \<open>except C\<close> clause catches every exception that is an instance of \<open>C\<close>, that is,
  whose class is \<open>C\<close> or inherits from it.
\<close>

datatype py_exception = PyException (exc_class: string) (exc_bases: "string list")

definition isinstance :: "py_exception \<Rightarrow> string \<Rightarrow> bool" where
  "isinstance e cls \<longleftrightarrow> cls = exc_class e \<or> cls \<in> set (exc_bases e)"

definition RuntimeError :: py_exception where
  "RuntimeError = PyException ''RuntimeError'' [''Exception'', ''BaseException'']"

definition IndexError :: py_exception where
  "IndexError = PyException ''IndexError'' [''LookupError'', ''Exception'', ''BaseException'']"

definition AttributeError :: py_exception where
  "AttributeError = PyException ''AttributeError'' [''Exception'', ''BaseException'']"

definition ValueError :: py_exception where
  "ValueError = PyException ''ValueError'' [''Exception'', ''BaseException'']"

definition ZeroDivisionError :: py_exception where
  "ZeroDivisionError =
     PyException ''ZeroDivisionError'' [''ArithmeticError'', ''Exception'', ''BaseException'']"

text \<open>
  A call returns a value, raises an exception that propagates to the caller, or ends the
  process with an exit status.
\<close>

datatype 'a outcome = Returned 'a | Raised py_exception | Exited int

text \<open>
  What a call does to the world outside the object: text written to \<open>sys.stderr\<close>, a display
  list materialised by the rendering library for a page (given by its position in the
  document), and the library's close operation.
\<close>

datatype event = Stderr string | GetDisplayList nat | DocumentClose

text \<open>
  Reading \<open>xs[i]\<close> of a Python list: a negative index counts from the end, and an index
  outside \<open>-len(xs) .. len(xs) - 1\<close> raises \<open>IndexError\<close> (here: no position).
\<close>

definition py_index :: "'a list \<Rightarrow> int \<Rightarrow> nat option" where
  "py_index xs i =
     (if 0 \<le> i \<and> i < int (length xs) then Some (nat i)
      else if i < 0 \<and> - int (length xs) \<le> i then Some (nat (int (length xs) + i))
      else None)"

section \<open>The rendering library (PyMuPDF, imported as \<open>fitz\<close>)\<close>

text \<open>
  Modelled from the spec: the rendering library is an external collaborator, not part of
  this repository. The model keeps what the spec's capability interface names: a document
  has a length and indexed pages; a page produces a display list; a display list has a
  page rectangle with a width and a height and renders to a pixel buffer for a transform
  matrix, a colour space, an optional clip rectangle and an alpha flag; a pixel buffer is
  exported in a portable pixel-map encoding; a document is closed. Rasterisation itself is
  out of scope: a pixel buffer is the record of the request that produced it. Coordinates
  are floating-point numbers in the library; the model computes with exact reals.
\<close>

record Point =
  point_x :: real
  point_y :: real

record Rect =
  x0 :: real
  y0 :: real
  x1 :: real
  y1 :: real

definition width :: "Rect \<Rightarrow> real" where
  "width r = x1 r - x0 r"

definition height :: "Rect \<Rightarrow> real" where
  "height r = y1 r - y0 r"

definition tl :: "Rect \<Rightarrow> Point" where
  "tl r = \<lparr>point_x = x0 r, point_y = y0 r\<rparr>"

text \<open>\<open>fitz.Rect(p, x, y)\<close>: the rectangle from the point \<open>p\<close> to the corner \<open>(x, y)\<close>.\<close>

definition Rect_of_point :: "Point \<Rightarrow> real \<Rightarrow> real \<Rightarrow> Rect" where
  "Rect_of_point p x y = \<lparr>x0 = point_x p, y0 = point_y p, x1 = x, y1 = y\<rparr>"

text \<open>
  A matrix \<open>(a, b, c, d, e, f)\<close>; \<open>fitz.Matrix(zx, zy)\<close> is the scaling by \<open>zx\<close> and \<open>zy\<close>,
  \<open>fitz.Identity\<close> the identity, and \<open>*\<close> the concatenation of two transforms.
\<close>

datatype Matrix = Matrix real real real real real real

definition Matrix_scale :: "real \<Rightarrow> real \<Rightarrow> Matrix" where
  "Matrix_scale zx zy = Matrix zx 0 0 zy 0 0"

definition Identity :: Matrix where
  "Identity = Matrix 1 0 0 1 0 0"

fun Matrix_mul :: "Matrix \<Rightarrow> Matrix \<Rightarrow> Matrix" where
  "Matrix_mul (Matrix a1 b1 c1 d1 e1 f1) (Matrix a2 b2 c2 d2 e2 f2) =
     Matrix (a1 * a2 + b1 * c2) (a1 * b2 + b1 * d2)
            (c1 * a2 + d1 * c2) (c1 * b2 + d1 * d2)
            (e1 * a2 + f1 * c2 + e2) (e1 * b2 + f1 * d2 + f2)"

datatype colorspace = csGRAY | csRGB

record Page =
  page_rect :: Rect
  page_contents :: string

record DisplayList =
  rect :: Rect
  contents :: string

definition getDisplayList :: "Page \<Rightarrow> DisplayList" where
  "getDisplayList p = \<lparr>rect = page_rect p, contents = page_contents p\<rparr>"

text \<open>
  \<open>getPixmap(matrix, colorspace, clip, alpha)\<close>; an argument the caller leaves out, or
  passes as \<open>None\<close>, is \<open>None\<close> here.
\<close>

datatype Pixmap = Pixmap DisplayList Matrix "colorspace option" "Rect option" bool

definition getPixmap ::
  "DisplayList \<Rightarrow> Matrix \<Rightarrow> colorspace option \<Rightarrow> Rect option \<Rightarrow> bool \<Rightarrow> Pixmap" where
  "getPixmap dl m cs clip alpha = Pixmap dl m cs clip alpha"

datatype image = ImageData Pixmap string

definition getImageData :: "Pixmap \<Rightarrow> string \<Rightarrow> image" where
  "getImageData pm fmt = ImageData pm fmt"

record Document =
  doc_pages :: "Page list"
  isClosed :: bool

text \<open>
  \<open>fitz.open\<close> reads the file system; what it finds at a path is a parameter of the model:
  either the exception the library raises, or the pages of the document it opens.
\<close>

type_synonym fitz_open = "string \<Rightarrow> py_exception + Page list"

text \<open>\<open>document[page_num]\<close>: a closed document refuses every access.\<close>

definition Document_getitem :: "Document \<Rightarrow> int \<Rightarrow> py_exception + (nat \<times> Page)" where
  "Document_getitem d i =
     (if isClosed d then Inl ValueError
      else case py_index (doc_pages d) i of
             None \<Rightarrow> Inl IndexError
           | Some k \<Rightarrow> Inr (k, doc_pages d ! k))"

section \<open>The \<open>DocumentPages\<close> class\<close>

text \<open>
  The attributes of the object. \<open>document\<close> is \<open>None\<close> as long as the attribute has not
  been assigned (\<open>__init__\<close> does not assign it). Every method takes the object and gives
  back the outcome of the call, the object as the call leaves it, and the events of the
  call in the order they happen.
\<close>

record DocumentPages =
  num_pages :: nat
  page_display_list_cache :: "DisplayList option list"
  page_crop_image_list_cache :: "DisplayList option list"
  document :: "Document option"

type_synonym 'a call = "'a outcome \<times> DocumentPages \<times> event list"

definition clear_cache :: "DocumentPages \<Rightarrow> DocumentPages" where
  "clear_cache self =
     self\<lparr>num_pages := 0, page_display_list_cache := [], page_crop_image_list_cache := []\<rparr>"

text \<open>\<open>__init__\<close>: a new object, on which \<open>clear_cache\<close> has run.\<close>

definition init :: DocumentPages where
  "init = clear_cache \<lparr>num_pages = 0, page_display_list_cache = [],
                       page_crop_image_list_cache = [], document = None\<rparr>"

text \<open>The text that \<open>open_document\<close> prints when the library cannot read the file.\<close>

definition open_error_message :: "string \<Rightarrow> string" where
  "open_error_message doc_fname =
     ''\<newline>Error in pdfCropMargins: The PyMuPDF program could not read'' @
     '' the document\<newline>   '' @ [CHR 0x27] @ doc_fname @ [CHR 0x27] @
     ''\<newline>in order to display it in the GUI.   If you have'' @
     '' Ghostscript installed\<newline>consider running pdfCropMargins with the'' @
     '' '' @ [CHR 0x27] @ ''--gsFix'' @ [CHR 0x27] @ '' option to attempt to repair it.'' @
     ''\<newline>''"

text \<open>
  Modelled from the spec: \<open>external_program_calls.cleanup_and_exit\<close> is a function of this
  repository whose source is not at hand. The spec describes it as the shared facility that
  terminates the process with a status code: it accepts an exit code and never returns.
\<close>

definition cleanup_and_exit :: "int \<Rightarrow> 'a outcome" where
  "cleanup_and_exit code = Exited code"

definition open_document :: "fitz_open \<Rightarrow> DocumentPages \<Rightarrow> string \<Rightarrow> nat call" where
  "open_document fitz_open self doc_fname =
     (case fitz_open doc_fname of
        Inl e \<Rightarrow>
          if isinstance e ''RuntimeError''
          then (cleanup_and_exit 1, self, [Stderr (open_error_message doc_fname)])
          else (Raised e, self, [])
      | Inr ps \<Rightarrow>
          let self1 = self\<lparr>document := Some \<lparr>doc_pages = ps, isClosed = False\<rparr>\<rparr>;
              self2 = self1\<lparr>num_pages := length ps\<rparr>;
              self3 = self2\<lparr>page_display_list_cache := replicate (num_pages self2) None\<rparr>;
              self4 = self3\<lparr>page_crop_image_list_cache := replicate (num_pages self3) None\<rparr>
          in (Returned (num_pages self4), self4, []))"

definition close_document :: "DocumentPages \<Rightarrow> unit call" where
  "close_document self =
     (case document self of
        None \<Rightarrow> (Raised AttributeError, self, [])
      | Some d \<Rightarrow>
          if isClosed d then (Raised ValueError, self, [])
          else (Returned (),
                clear_cache (self\<lparr>document := Some (d\<lparr>isClosed := True\<rparr>)\<rparr>),
                [DocumentClose]))"

text \<open>
  The expression \<open>self.document[page_num].getDisplayList()\<close> of both page operations:
  the display-list materialisation step of the library, with the position of the page it
  ran on.
\<close>

definition create_display_list ::
  "Document option \<Rightarrow> int \<Rightarrow> py_exception + (DisplayList \<times> event list)" where
  "create_display_list doc page_num =
     (case doc of
        None \<Rightarrow> Inl AttributeError
      | Some d \<Rightarrow>
          (case Document_getitem d page_num of
             Inl e \<Rightarrow> Inl e
           | Inr (j, p) \<Rightarrow> Inr (getDisplayList p, [GetDisplayList j])))"

text \<open>
  \<open>get_page_ppm_for_crop\<close>: the slot of \<open>page_crop_image_list_cache\<close> is read, filled when
  it holds \<open>None\<close>, and the page is rendered unscaled and unclipped in grayscale.
\<close>

definition get_page_ppm_for_crop :: "DocumentPages \<Rightarrow> int \<Rightarrow> image call" where
  "get_page_ppm_for_crop self page_num =
     (let colorspace = csGRAY in
      case py_index (page_crop_image_list_cache self) page_num of
        None \<Rightarrow> (Raised IndexError, self, [])
      | Some k \<Rightarrow>
          (case (case page_crop_image_list_cache self ! k of
                   Some dl \<Rightarrow> Inr (dl, self, [])
                 | None \<Rightarrow>
                     (case create_display_list (document self) page_num of
                        Inl e \<Rightarrow> Inl e
                      | Inr (dl, evs) \<Rightarrow>
                          Inr (dl,
                               self\<lparr>page_crop_image_list_cache :=
                                      (page_crop_image_list_cache self)[k := Some dl]\<rparr>,
                               evs))) of
             Inl e \<Rightarrow> (Raised e, self, [])
           | Inr (page_crop_image_list, self', evs) \<Rightarrow>
               let pixmap = getPixmap page_crop_image_list Identity (Some colorspace) None False;
                   image_ppm = getImageData pixmap ''ppm''
               in (Returned image_ppm, self', evs)))"

text \<open>
  The scale that makes the image fit the screen (\<open>zoom_0\<close> in \<open>get_page\<close>). Dividing by a
  width or height of zero raises \<open>ZeroDivisionError\<close>.
\<close>

definition zoom_0 :: "(real \<times> real) option \<Rightarrow> Rect \<Rightarrow> py_exception + real" where
  "zoom_0 window_size r =
     (case window_size of
        None \<Rightarrow> Inr 1
      | Some (vw, vh) \<Rightarrow>
          if width r = 0 \<or> height r = 0 then Inl ZeroDivisionError
          else let z = min 1 (min (vw / width r) (vh / height r))
               in if z = 1 then Inr (min (vw / width r) (vh / height r)) else Inr z)"

text \<open>
  \<open>get_page\<close>. \<open>window_size\<close> is \<open>None\<close> or the pair (width, height); \<open>zoom\<close> is \<open>None\<close>
  (the default \<open>False\<close>) or the triple of the old top-left point and the two arrow
  directions. The slot of \<open>page_display_list_cache\<close> is read and filled before the scale is
  computed, so a call that raises at the division has already filled the slot. The point
  object passed in \<open>zoom\<close> is updated in place by the source; its final coordinates are those
  of the point the call returns. The assignment \<open>clip = rect * 0.5\<close> is overwritten before it
  is read. The parameter \<open>fit_screen\<close> is not read.
\<close>

definition get_page ::
  "DocumentPages \<Rightarrow> int \<Rightarrow> (real \<times> real) option \<Rightarrow> (Point \<times> real \<times> real) option \<Rightarrow> bool
     \<Rightarrow> (image \<times> Point) call" where
  "get_page self page_num window_size zoom fit_screen =
     (case py_index (page_display_list_cache self) page_num of
        None \<Rightarrow> (Raised IndexError, self, [])
      | Some k \<Rightarrow>
          (case (case page_display_list_cache self ! k of
                   Some dl \<Rightarrow> Inr (dl, self, [])
                 | None \<Rightarrow>
                     (case create_display_list (document self) page_num of
                        Inl e \<Rightarrow> Inl e
                      | Inr (dl, evs) \<Rightarrow>
                          Inr (dl,
                               self\<lparr>page_display_list_cache :=
                                      (page_display_list_cache self)[k := Some dl]\<rparr>,
                               evs))) of
             Inl e \<Rightarrow> (Raised e, self, [])
           | Inr (page_display_list, self', evs) \<Rightarrow>
               let r = rect page_display_list in
               (case zoom_0 window_size r of
                  Inl e \<Rightarrow> (Raised e, self', evs)
                | Inr z0 \<Rightarrow>
                    let mat_0 = Matrix_scale z0 z0 in
                    (case zoom of
                       Some (old_tl, dx, dy) \<Rightarrow>
                         let w2 = width r / 2;
                             h2 = height r / 2;
                             tx = point_x old_tl + dx * (w2 / 2);
                             tx = max 0 tx;
                             tx = min w2 tx;
                             ty = point_y old_tl + dy * (h2 / 2);
                             ty = max 0 ty;
                             ty = min h2 ty;
                             new_tl = \<lparr>point_x = tx, point_y = ty\<rparr>;
                             clip = Rect_of_point new_tl (point_x new_tl + w2) (point_y new_tl + h2);
                             mat = Matrix_mul mat_0 (Matrix_scale 2 2);
                             pixmap = getPixmap page_display_list mat None (Some clip) False;
                             image_ppm = getImageData pixmap ''ppm''
                         in (Returned (image_ppm, tl clip), self', evs)
                     | None \<Rightarrow>
                         let clip = r;
                             pixmap = getPixmap page_display_list mat_0 None None False;
                             image_ppm = getImageData pixmap ''ppm''
                         in (Returned (image_ppm, tl clip), self', evs)))))"

section \<open>States of an open document, and sequences of calls\<close>

text \<open>The object holds an open document, and its page count and caches are sized to it.\<close>

definition opened :: "DocumentPages \<Rightarrow> bool" where
  "opened self \<longleftrightarrow>
     (case document self of
        None \<Rightarrow> False
      | Some d \<Rightarrow> \<not> isClosed d \<and> length (doc_pages d) = num_pages self) \<and>
     length (page_display_list_cache self) = num_pages self \<and>
     length (page_crop_image_list_cache self) = num_pages self"

text \<open>The object holds a document that has not been closed.\<close>

definition has_open_document :: "DocumentPages \<Rightarrow> bool" where
  "has_open_document self =
     (case document self of None \<Rightarrow> False | Some d \<Rightarrow> \<not> isClosed d)"

text \<open>
  Both caches have exactly \<open>num_pages\<close> entries, and the page count is 0 whenever the object
  holds no open document (before any open, and after a close).
\<close>

definition cache_inv :: "DocumentPages \<Rightarrow> bool" where
  "cache_inv self \<longleftrightarrow>
     length (page_display_list_cache self) = num_pages self \<and>
     length (page_crop_image_list_cache self) = num_pages self \<and>
     (has_open_document self \<or> num_pages self = 0)"

text \<open>
  A request is one call of a method with its arguments. \<open>perform\<close> makes the call and keeps
  the object and the events; \<open>exits\<close> tells whether the call ended the process.
\<close>

datatype request =
    ClearCache
  | OpenDocument string
  | CloseDocument
  | GetPagePpmForCrop int
  | GetPage int "(real \<times> real) option" "(Point \<times> real \<times> real) option" bool

fun perform :: "fitz_open \<Rightarrow> request \<Rightarrow> DocumentPages \<Rightarrow> DocumentPages \<times> event list" where
  "perform lib ClearCache self = (clear_cache self, [])"
| "perform lib (OpenDocument doc_fname) self = snd (open_document lib self doc_fname)"
| "perform lib CloseDocument self = snd (close_document self)"
| "perform lib (GetPagePpmForCrop page_num) self = snd (get_page_ppm_for_crop self page_num)"
| "perform lib (GetPage page_num window_size zoom fit_screen) self =
     snd (get_page self page_num window_size zoom fit_screen)"

fun exits :: "fitz_open \<Rightarrow> request \<Rightarrow> DocumentPages \<Rightarrow> bool" where
  "exits lib (OpenDocument doc_fname) self =
     (case fst (open_document lib self doc_fname) of Exited c \<Rightarrow> True | _ \<Rightarrow> False)"
| "exits lib rq self = False"

text \<open>
  A sequence of calls on one object: a call that raises leaves the object to the caller,
  who may go on; a call that ends the process ends the sequence.
\<close>

fun run :: "fitz_open \<Rightarrow> request list \<Rightarrow> DocumentPages \<Rightarrow> DocumentPages \<times> event list" where
  "run lib [] self = (self, [])"
| "run lib (rq # rqs) self =
     (let (self', evs) = perform lib rq self in
      if exits lib rq self then (self', evs)
      else let (self'', evs') = run lib rqs self' in (self'', evs @ evs'))"

text \<open>The page operations only: the requests that render a page.\<close>

fun is_page_request :: "request \<Rightarrow> bool" where
  "is_page_request (GetPagePpmForCrop page_num) = True"
| "is_page_request (GetPage page_num window_size zoom fit_screen) = True"
| "is_page_request rq = False"

text \<open>How often the materialisation step ran on page \<open>k\<close> in a list of events.\<close>

definition materialisations :: "nat \<Rightarrow> event list \<Rightarrow> nat" where
  "materialisations k evs = length (filter (\<lambda>ev. ev = GetDisplayList k) evs)"

text \<open>
  The display list a page operation works with when it finds \<open>cache\<close> and the document \<open>d\<close>:
  the one stored in slot \<open>k\<close>, or else a new one made from page \<open>k\<close>; and the events of
  getting it.
\<close>

definition display_list_for :: "DisplayList option list \<Rightarrow> Document \<Rightarrow> nat \<Rightarrow> DisplayList" where
  "display_list_for cache d k =
     (case cache ! k of Some dl \<Rightarrow> dl | None \<Rightarrow> getDisplayList (doc_pages d ! k))"

definition fill_events :: "DisplayList option list \<Rightarrow> nat \<Rightarrow> event list" where
  "fill_events cache k = (case cache ! k of Some dl \<Rightarrow> [] | None \<Rightarrow> [GetDisplayList k])"

text \<open>
  What the two page operations make of the display list \<open>dl\<close> once they hold it:
  \<open>crop_image\<close> is the image of \<open>get_page_ppm_for_crop\<close> (lines 102 to 109), \<open>page_image\<close>
  the outcome of \<open>get_page\<close> (lines 127 to 160) for a window size and a zoom.
\<close>

definition crop_image :: "DisplayList \<Rightarrow> image" where
  "crop_image dl = getImageData (getPixmap dl Identity (Some csGRAY) None False) ''ppm''"

definition page_image ::
  "DisplayList \<Rightarrow> (real \<times> real) option \<Rightarrow> (Point \<times> real \<times> real) option
     \<Rightarrow> (image \<times> Point) outcome" where
  "page_image dl window_size zoom =
     (case zoom_0 window_size (rect dl) of
        Inl e \<Rightarrow> Raised e
      | Inr z0 \<Rightarrow>
          (case zoom of
             None \<Rightarrow>
               Returned (getImageData (getPixmap dl (Matrix_scale z0 z0) None None False) ''ppm'',
                         tl (rect dl))
           | Some (old_tl, dx, dy) \<Rightarrow>
               let w2 = width (rect dl) / 2;
                   h2 = height (rect dl) / 2;
                   new_tl = \<lparr>point_x = min w2 (max 0 (point_x old_tl + dx * (w2 / 2))),
                             point_y = min h2 (max 0 (point_y old_tl + dy * (h2 / 2)))\<rparr>;
                   clip = Rect_of_point new_tl (point_x new_tl + w2) (point_y new_tl + h2);
                   mat = Matrix_mul (Matrix_scale z0 z0) (Matrix_scale 2 2)
               in Returned (getImageData (getPixmap dl mat None (Some clip) False) ''ppm'',
                            tl clip)))"

text \<open>The number of the two slots of page \<open>k\<close> that are still empty.\<close>

definition empty_slots :: "DocumentPages \<Rightarrow> nat \<Rightarrow> nat" where
  "empty_slots self k =
     (if page_display_list_cache self ! k = None then 1 else 0) +
     (if page_crop_image_list_cache self ! k = None then 1 else 0)"

section \<open>The arithmetic of the specification\<close>

text \<open>
  The specification's words, to compare with the code: a value clamped to an interval, and
  the base fit-scale of a page of size \<open>(W, H)\<close> in a viewport \<open>(Vw, Vh)\<close>.
\<close>

definition clamped :: "real \<Rightarrow> real \<Rightarrow> real \<Rightarrow> real" where
  "clamped lo hi v = (if v < lo then lo else if hi < v then hi else v)"

definition fit_scale_spec :: "real \<Rightarrow> real \<Rightarrow> real \<Rightarrow> real \<Rightarrow> real" where
  "fit_scale_spec W H Vw Vh =
     (if min 1 (min (Vw / W) (Vh / H)) = 1 then min (Vw / W) (Vh / H)
      else min 1 (min (Vw / W) (Vh / H)))"

definition base_fit_scale_spec :: "(real \<times> real) option \<Rightarrow> real \<Rightarrow> real \<Rightarrow> real" where
  "base_fit_scale_spec window_size W H =
     (case window_size of None \<Rightarrow> 1 | Some (Vw, Vh) \<Rightarrow> fit_scale_spec W H Vw Vh)"

section \<open>Example documents\<close>

definition FileNotFoundError :: py_exception where
  "FileNotFoundError =
     PyException ''FileNotFoundError'' [''OSError'', ''Exception'', ''BaseException'']"

definition paper_page :: Page where
  "paper_page = \<lparr>page_rect = \<lparr>x0 = 0, y0 = 0, x1 = 600, y1 = 800\<rparr>,
                  page_contents = ''first page''\<rparr>"

definition letter_page :: Page where
  "letter_page = \<lparr>page_rect = \<lparr>x0 = 0, y0 = 0, x1 = 612, y1 = 792\<rparr>,
                   page_contents = ''a letter''\<rparr>"

definition example_files :: fitz_open where
  "example_files path =
     (if path = ''paper.pdf'' then Inr [paper_page]
      else if path = ''letter.pdf'' then Inr [letter_page, letter_page]
      else if path = ''broken.pdf'' then Inl RuntimeError
      else Inl FileNotFoundError)"

definition paper_opened :: DocumentPages where
  "paper_opened = fst (snd (open_document example_files init ''paper.pdf''))"

section \<open>Facts about the page operations on an open document\<close>

lemma py_index_in_range:
  "0 \<le> i \<Longrightarrow> i < int (length xs) \<Longrightarrow> py_index xs i = Some (nat i)"
  by (simp add: py_index_def)

lemma py_index_bound: "py_index xs i = Some k \<Longrightarrow> k < length xs"
  by (auto simp: py_index_def split: if_splits)

lemma create_display_list_opened:
  assumes "opened self" "document self = Some d" "0 \<le> i" "i < int (num_pages self)"
  shows "create_display_list (document self) i =
           Inr (getDisplayList (doc_pages d ! nat i), [GetDisplayList (nat i)])"
  using assms
  by (simp add: create_display_list_def Document_getitem_def opened_def py_index_in_range)

lemma slot_update_same: "cache ! k = Some dl \<Longrightarrow> cache[k := Some dl] = cache"
  by (metis list_update_id)

lemma get_page_opened_snd:
  assumes "opened self" "document self = Some d" "0 \<le> i" "i < int (num_pages self)"
  shows "snd (get_page self i w z f) =
           (self\<lparr>page_display_list_cache :=
                   (page_display_list_cache self)
                     [nat i := Some (display_list_for (page_display_list_cache self) d (nat i))]\<rparr>,
            fill_events (page_display_list_cache self) (nat i))"
proof -
  have len: "i < int (length (page_display_list_cache self))"
    using assms by (simp add: opened_def)
  show ?thesis
  proof (cases "page_display_list_cache self ! nat i")
    case None
    then show ?thesis
      using assms len create_display_list_opened [OF assms]
      by (simp add: get_page_def py_index_in_range display_list_for_def fill_events_def Let_def
            split: sum.splits option.splits prod.splits)
  next
    case (Some dl)
    then show ?thesis
      using assms len slot_update_same [OF Some]
      by (simp add: get_page_def py_index_in_range display_list_for_def fill_events_def Let_def
            split: sum.splits option.splits prod.splits)
  qed
qed

lemma get_page_opened_fst:
  assumes "opened self" "document self = Some d" "0 \<le> i" "i < int (num_pages self)"
    and "dl = display_list_for (page_display_list_cache self) d (nat i)"
  shows "fst (get_page self i w z f) =
           (case zoom_0 w (rect dl) of
              Inl e \<Rightarrow> Raised e
            | Inr z0 \<Rightarrow>
                (case z of
                   None \<Rightarrow>
                     Returned (ImageData (Pixmap dl (Matrix_scale z0 z0) None None False) ''ppm'',
                               tl (rect dl))
                 | Some (old_tl, dx, dy) \<Rightarrow>
                     Returned
                       (ImageData
                          (Pixmap dl (Matrix_mul (Matrix_scale z0 z0) (Matrix_scale 2 2)) None
                             (Some \<lparr>x0 = min (width (rect dl) / 2)
                                            (max 0 (point_x old_tl + dx * (width (rect dl) / 2 / 2))),
                                     y0 = min (height (rect dl) / 2)
                                            (max 0 (point_y old_tl + dy * (height (rect dl) / 2 / 2))),
                                     x1 = min (width (rect dl) / 2)
                                            (max 0 (point_x old_tl + dx * (width (rect dl) / 2 / 2)))
                                          + width (rect dl) / 2,
                                     y1 = min (height (rect dl) / 2)
                                            (max 0 (point_y old_tl + dy * (height (rect dl) / 2 / 2)))
                                          + height (rect dl) / 2\<rparr>)
                             False) ''ppm'',
                        \<lparr>point_x = min (width (rect dl) / 2)
                                      (max 0 (point_x old_tl + dx * (width (rect dl) / 2 / 2))),
                           point_y = min (height (rect dl) / 2)
                                      (max 0 (point_y old_tl + dy * (height (rect dl) / 2 / 2)))\<rparr>)))"
proof -
  have len: "i < int (length (page_display_list_cache self))"
    using assms by (simp add: opened_def)
  show ?thesis
  proof (cases "page_display_list_cache self ! nat i")
    case None
    then show ?thesis
      using assms len create_display_list_opened [OF assms(1-4)]
      by (simp add: get_page_def py_index_in_range display_list_for_def Let_def
            getPixmap_def getImageData_def Rect_of_point_def tl_def
            split: sum.splits option.splits prod.splits)
  next
    case (Some dl')
    then show ?thesis
      using assms len
      by (simp add: get_page_def py_index_in_range display_list_for_def Let_def
            getPixmap_def getImageData_def Rect_of_point_def tl_def
            split: sum.splits option.splits prod.splits)
  qed
qed

lemma get_page_ppm_for_crop_opened:
  assumes "opened self" "document self = Some d" "0 \<le> i" "i < int (num_pages self)"
  shows "get_page_ppm_for_crop self i =
           (Returned (ImageData (Pixmap (display_list_for (page_crop_image_list_cache self) d (nat i))
                                   Identity (Some csGRAY) None False) ''ppm''),
            self\<lparr>page_crop_image_list_cache :=
                   (page_crop_image_list_cache self)
                     [nat i := Some (display_list_for (page_crop_image_list_cache self) d (nat i))]\<rparr>,
            fill_events (page_crop_image_list_cache self) (nat i))"
proof -
  have len: "i < int (length (page_crop_image_list_cache self))"
    using assms by (simp add: opened_def)
  show ?thesis
  proof (cases "page_crop_image_list_cache self ! nat i")
    case None
    then show ?thesis
      using assms len create_display_list_opened [OF assms]
      by (simp add: get_page_ppm_for_crop_def py_index_in_range display_list_for_def
            fill_events_def getPixmap_def getImageData_def)
  next
    case (Some dl)
    show ?thesis
      using assms len Some slot_update_same [OF Some]
      by (simp add: get_page_ppm_for_crop_def py_index_in_range display_list_for_def
            fill_events_def getPixmap_def getImageData_def)
  qed
qed

lemma sublist_open_error_message: "sublist doc_fname (open_error_message doc_fname)"
  unfolding sublist_def open_error_message_def
  by (metis append.assoc)

lemma gsFix_open_error_message: "sublist ''--gsFix'' (open_error_message doc_fname)"
  unfolding sublist_def open_error_message_def
  by (metis append.assoc)

lemma paper_opened_eq:
  "paper_opened = \<lparr>num_pages = 1, page_display_list_cache = [None],
      page_crop_image_list_cache = [None],
      document = Some \<lparr>doc_pages = [paper_page], isClosed = False\<rparr>\<rparr>"
  by (simp add: paper_opened_def open_document_def example_files_def init_def clear_cache_def)

lemma opened_paper_opened: "opened paper_opened"
  by (simp add: paper_opened_eq opened_def)

section \<open>Opening a document\<close>

text \<open>
  C4. When the library raises \<open>RuntimeError\<close> for the path (it cannot read the file),
  \<open>open_document\<close> does not return and raises nothing to its caller: it writes one message
  to \<open>sys.stderr\<close>, which contains the path and names the \<open>--gsFix\<close> repair option, and the
  process ends with exit status 1, which is not zero. The object is left as it was.
\<close>

theorem open_document_unreadable:
  assumes "fitz_open doc_fname = Inl e" and "isinstance e ''RuntimeError''"
  shows "open_document fitz_open self doc_fname =
           (Exited 1, self, [Stderr (open_error_message doc_fname)]) \<and>
         (1::int) \<noteq> 0 \<and>
         sublist doc_fname (open_error_message doc_fname) \<and>
         sublist ''--gsFix'' (open_error_message doc_fname)"
  using assms
  by (simp add: open_document_def cleanup_and_exit_def sublist_open_error_message
        gsFix_open_error_message)

theorem open_document_unreadable_witness:
  "example_files ''broken.pdf'' = Inl RuntimeError \<and> isinstance RuntimeError ''RuntimeError'' \<and>
   open_document example_files init ''broken.pdf'' =
     (Exited 1, init, [Stderr (open_error_message ''broken.pdf'')])"
proof -
  have h1: "example_files ''broken.pdf'' = Inl RuntimeError"
    by (simp add: example_files_def)
  have h2: "isinstance RuntimeError ''RuntimeError''"
    by (simp add: isinstance_def RuntimeError_def)
  show ?thesis
    using h1 h2 open_document_unreadable [of example_files "''broken.pdf''" RuntimeError init]
    by simp
qed

text \<open>
  C5. When the library opens the path and reports the pages \<open>ps\<close>, \<open>N\<close> of them,
  \<open>open_document\<close> returns \<open>N\<close> and leaves an object that holds the open document, has
  \<open>num_pages = N\<close>, and has both caches of length \<open>N\<close> with \<open>None\<close> in every slot.
\<close>

theorem open_document_success:
  assumes "fitz_open doc_fname = Inr ps"
  shows "open_document fitz_open self doc_fname =
           (Returned (length ps),
            \<lparr>num_pages = length ps,
               page_display_list_cache = replicate (length ps) None,
               page_crop_image_list_cache = replicate (length ps) None,
               document = Some \<lparr>doc_pages = ps, isClosed = False\<rparr>\<rparr>,
            [])"
  using assms by (simp add: open_document_def Let_def)

theorem open_document_success_witness:
  "example_files ''paper.pdf'' = Inr [paper_page] \<and>
   open_document example_files init ''paper.pdf'' =
     (Returned 1,
      \<lparr>num_pages = 1, page_display_list_cache = [None], page_crop_image_list_cache = [None],
         document = Some \<lparr>doc_pages = [paper_page], isClosed = False\<rparr>\<rparr>,
      [])"
proof -
  have h: "example_files ''paper.pdf'' = Inr [paper_page]"
    by (simp add: example_files_def)
  show ?thesis
    using h open_document_success [of example_files "''paper.pdf''" "[paper_page]" init]
    by simp
qed

text \<open>
  C10. Only an exception that is an instance of \<open>RuntimeError\<close> is treated as the fatal
  condition. Any other exception raised while opening the path propagates to the caller
  unchanged: nothing is written to \<open>sys.stderr\<close>, the process does not end, and the object
  is left as it was.
\<close>

theorem open_document_other_exception:
  assumes "fitz_open doc_fname = Inl e" and "\<not> isinstance e ''RuntimeError''"
  shows "open_document fitz_open self doc_fname = (Raised e, self, [])"
  using assms by (simp add: open_document_def)

theorem open_document_other_exception_witness:
  "example_files ''nothing.pdf'' = Inl FileNotFoundError \<and>
   \<not> isinstance FileNotFoundError ''RuntimeError'' \<and>
   open_document example_files init ''nothing.pdf'' = (Raised FileNotFoundError, init, [])"
proof -
  have h1: "example_files ''nothing.pdf'' = Inl FileNotFoundError"
    by (simp add: example_files_def)
  have h2: "\<not> isinstance FileNotFoundError ''RuntimeError''"
    by (simp add: isinstance_def FileNotFoundError_def)
  show ?thesis
    using h1 h2
      open_document_other_exception [of example_files "''nothing.pdf''" FileNotFoundError init]
    by simp
qed

section \<open>The parameter \<open>fit_screen\<close>\<close>

text \<open>
  C9. Two calls of \<open>get_page\<close> on the same object with the same page number, window size
  and zoom, which differ only in \<open>fit_screen\<close>, have the same outcome, leave the same
  object (so the same caches) and have the same events.
\<close>

theorem get_page_fit_screen_unused:
  "get_page self page_num window_size zoom fit_screen =
   get_page self page_num window_size zoom fit_screen'"
  by (simp add: get_page_def)

section \<open>The base fit-scale\<close>

text \<open>
  The code's clamp and the code's scale agree with the specification's words; in exact
  arithmetic the special case for a scale of exactly 1 gives the smaller of the two ratios
  whichever branch is taken.
\<close>

lemma fit_scale_spec_min: "fit_scale_spec W H Vw Vh = min (Vw / W) (Vh / H)"
  by (simp add: fit_scale_spec_def min_def)

lemma clamped_min_max: "lo \<le> hi \<Longrightarrow> min hi (max lo v) = clamped lo hi v"
  by (simp add: clamped_def min_def max_def)

lemma clamped_bounds: "lo \<le> hi \<Longrightarrow> lo \<le> clamped lo hi v \<and> clamped lo hi v \<le> hi"
  by (simp add: clamped_def)

lemma zoom_0_spec:
  assumes "window_size = None \<or> (0 < width r \<and> 0 < height r)"
  shows "zoom_0 window_size r = Inr (base_fit_scale_spec window_size (width r) (height r))"
  using assms
  by (auto simp: zoom_0_def base_fit_scale_spec_def fit_scale_spec_def Let_def
        split: option.splits)

text \<open>
  C2. For a page whose display list has width \<open>W > 0\<close> and height \<open>H > 0\<close>, the scale
  that \<open>get_page\<close> computes for a viewport \<open>(Vw, Vh)\<close> is \<open>min(1, Vw/W, Vh/H)\<close>, except
  that when this value is exactly 1 the scale is \<open>min(Vw/W, Vh/H)\<close>; without a viewport the
  scale is 1. The whole page is rendered with the scaling matrix of that scale.
\<close>

theorem get_page_base_fit_scale:
  assumes "opened self" and "document self = Some d"
    and "0 \<le> page_num" and "page_num < int (num_pages self)"
    and "dl = display_list_for (page_display_list_cache self) d (nat page_num)"
    and "width (rect dl) = W" and "height (rect dl) = H" and "0 < W" and "0 < H"
  shows "zoom_0 (Some (Vw, Vh)) (rect dl) = Inr (fit_scale_spec W H Vw Vh) \<and>
         zoom_0 None (rect dl) = Inr 1 \<and>
         fst (get_page self page_num (Some (Vw, Vh)) None fit_screen) =
           Returned (ImageData (Pixmap dl (Matrix_scale (fit_scale_spec W H Vw Vh)
                                            (fit_scale_spec W H Vw Vh)) None None False) ''ppm'',
                     tl (rect dl)) \<and>
         fst (get_page self page_num None None fit_screen) =
           Returned (ImageData (Pixmap dl (Matrix_scale 1 1) None None False) ''ppm'',
                     tl (rect dl))"
proof -
  have z1: "zoom_0 (Some (Vw, Vh)) (rect dl) = Inr (fit_scale_spec W H Vw Vh)"
    using assms(6-9) by (simp add: zoom_0_def fit_scale_spec_def Let_def)
  have z2: "zoom_0 None (rect dl) = Inr 1"
    by (simp add: zoom_0_def)
  show ?thesis
    using z1 z2 get_page_opened_fst [OF assms(1-5)] by simp
qed

theorem get_page_base_fit_scale_witness:
  "opened paper_opened \<and>
   document paper_opened = Some \<lparr>doc_pages = [paper_page], isClosed = False\<rparr> \<and>
   (0::int) \<le> 0 \<and> 0 < int (num_pages paper_opened) \<and>
   width (rect (getDisplayList paper_page)) = 600 \<and>
   height (rect (getDisplayList paper_page)) = 800 \<and>
   zoom_0 (Some (300, 300)) (rect (getDisplayList paper_page)) = Inr (3 / 8) \<and>
   fst (get_page paper_opened 0 (Some (300, 300)) None True) =
     Returned (ImageData (Pixmap (getDisplayList paper_page) (Matrix_scale (3 / 8) (3 / 8))
                            None None False) ''ppm'',
               \<lparr>point_x = 0, point_y = 0\<rparr>)"
proof -
  have dl: "getDisplayList paper_page =
              display_list_for (page_display_list_cache paper_opened)
                \<lparr>doc_pages = [paper_page], isClosed = False\<rparr> (nat 0)"
    by (simp add: paper_opened_eq display_list_for_def)
  have w: "width (rect (getDisplayList paper_page)) = 600"
    by (simp add: getDisplayList_def paper_page_def width_def)
  have h: "height (rect (getDisplayList paper_page)) = 800"
    by (simp add: getDisplayList_def paper_page_def height_def)
  have t: "tl (rect (getDisplayList paper_page)) = \<lparr>point_x = 0, point_y = 0\<rparr>"
    by (simp add: getDisplayList_def paper_page_def tl_def)
  have s: "fit_scale_spec 600 800 300 300 = 3 / 8"
    by (simp add: fit_scale_spec_def)
  have d: "document paper_opened = Some \<lparr>doc_pages = [paper_page], isClosed = False\<rparr>"
    by (simp add: paper_opened_eq)
  have n: "0 < int (num_pages paper_opened)"
    by (simp add: paper_opened_eq)
  show ?thesis
    using get_page_base_fit_scale [OF opened_paper_opened d _ n dl w h, of 300 300 True]
      opened_paper_opened d n w h t s
    by simp
qed

section \<open>The cache of \<open>get_page_ppm_for_crop\<close>\<close>

text \<open>
  C1, as the code has it. For every in-range page index of an open document,
  \<open>get_page_ppm_for_crop\<close> returns the grayscale, unscaled, unclipped image of the page and
  fills or reuses the slot of the page in \<open>page_crop_image_list_cache\<close>: a slot that holds a
  display list is reused with no materialisation, an empty slot is filled by one
  materialisation. It leaves \<open>page_display_list_cache\<close>, the cache of \<open>get_page\<close>, unchanged,
  and \<open>get_page\<close> leaves \<open>page_crop_image_list_cache\<close> unchanged: the two operations do not
  share a cache.
\<close>

theorem get_page_ppm_for_crop_own_cache:
  assumes "opened self" and "document self = Some d"
    and "0 \<le> page_num" and "page_num < int (num_pages self)"
    and "dl = display_list_for (page_crop_image_list_cache self) d (nat page_num)"
  shows "get_page_ppm_for_crop self page_num =
           (Returned (ImageData (Pixmap dl Identity (Some csGRAY) None False) ''ppm''),
            self\<lparr>page_crop_image_list_cache :=
                   (page_crop_image_list_cache self)[nat page_num := Some dl]\<rparr>,
            fill_events (page_crop_image_list_cache self) (nat page_num)) \<and>
         page_crop_image_list_cache (fst (snd (get_page_ppm_for_crop self page_num))) ! nat page_num
           = Some dl \<and>
         page_display_list_cache (fst (snd (get_page_ppm_for_crop self page_num))) =
           page_display_list_cache self \<and>
         page_crop_image_list_cache (fst (snd (get_page self page_num window_size zoom fit_screen))) =
           page_crop_image_list_cache self"
proof -
  have len: "nat page_num < length (page_crop_image_list_cache self)"
    using assms(1,3,4) by (simp add: opened_def)
  show ?thesis
    using len get_page_ppm_for_crop_opened [OF assms(1-4)] get_page_opened_snd [OF assms(1-4)]
    by (simp add: assms(5))
qed

theorem get_page_ppm_for_crop_own_cache_witness:
  "opened paper_opened \<and>
   document paper_opened = Some \<lparr>doc_pages = [paper_page], isClosed = False\<rparr> \<and>
   (0::int) \<le> 0 \<and> 0 < int (num_pages paper_opened) \<and>
   get_page_ppm_for_crop paper_opened 0 =
     (Returned (ImageData (Pixmap (getDisplayList paper_page) Identity (Some csGRAY) None False)
                  ''ppm''),
      paper_opened\<lparr>page_crop_image_list_cache := [Some (getDisplayList paper_page)]\<rparr>,
      [GetDisplayList 0])"
proof -
  have dl: "getDisplayList paper_page =
              display_list_for (page_crop_image_list_cache paper_opened)
                \<lparr>doc_pages = [paper_page], isClosed = False\<rparr> (nat 0)"
    by (simp add: paper_opened_eq display_list_for_def)
  have d: "document paper_opened = Some \<lparr>doc_pages = [paper_page], isClosed = False\<rparr>"
    by (simp add: paper_opened_eq)
  have n: "0 < int (num_pages paper_opened)"
    by (simp add: paper_opened_eq)
  have c: "page_crop_image_list_cache paper_opened = [None]"
    by (simp add: paper_opened_eq)
  show ?thesis
    using get_page_ppm_for_crop_own_cache [OF opened_paper_opened d _ n dl]
      opened_paper_opened d n c
    by (simp add: fill_events_def)
qed

text \<open>
  C1 as stated fails: on a newly opened one-page document, \<open>get_page_ppm_for_crop\<close> for
  page 0 leaves the slot of \<open>page_display_list_cache\<close> empty and changes
  \<open>page_crop_image_list_cache\<close>.
\<close>

theorem get_page_ppm_for_crop_shared_cache_counterexample:
  "page_display_list_cache (fst (snd (get_page_ppm_for_crop paper_opened 0))) ! 0 = None \<and>
   page_crop_image_list_cache (fst (snd (get_page_ppm_for_crop paper_opened 0))) \<noteq>
     page_crop_image_list_cache paper_opened"
  by (simp add: paper_opened_eq get_page_ppm_for_crop_def py_index_def create_display_list_def
        Document_getitem_def Let_def)

section \<open>Zoom mode and whole-page mode of \<open>get_page\<close>\<close>

text \<open>
  The library reports no page of zero width or height (it replaces a degenerate page box by
  a default one), and a window size is a size in pixels, positive in both directions. The
  model records the request for a pixel buffer and does not say when the library's export
  of an empty pixel buffer fails, so the two statements of this section are made for these
  inputs, for which the scale is positive and the rendered region is not empty.
\<close>

lemma base_fit_scale_spec_pos:
  assumes "0 < W" and "0 < H"
    and "case window_size of None \<Rightarrow> True | Some (Vw, Vh) \<Rightarrow> 0 < Vw \<and> 0 < Vh"
  shows "0 < base_fit_scale_spec window_size W H"
  using assms
  by (auto simp: base_fit_scale_spec_def fit_scale_spec_def split: option.splits)

text \<open>
  C3. In zoom mode, for every old top-left \<open>(x, y)\<close>, every pair of arrow directions
  \<open>(dx, dy)\<close> (any two numbers, so also each of -1, 0 and 1) and every page of width \<open>W\<close> and
  height \<open>H\<close>, \<open>get_page\<close> computes the new top-left \<open>(nx, ny)\<close> with \<open>nx\<close> equal to
  \<open>x + dx * (W/4)\<close> clamped to \<open>[0, W/2]\<close> and \<open>ny\<close> equal to \<open>y + dy * (H/4)\<close> clamped to
  \<open>[0, H/2]\<close>. Its clip rectangle is the window of width \<open>W/2\<close> and height \<open>H/2\<close> whose
  top-left is \<open>(nx, ny)\<close>; the call renders that rectangle at twice the base fit-scale and
  returns the rectangle's top-left with the image.
\<close>

theorem get_page_zoom_clip:
  assumes "opened self" and "document self = Some d"
    and "0 \<le> page_num" and "page_num < int (num_pages self)"
    and "dl = display_list_for (page_display_list_cache self) d (nat page_num)"
    and "width (rect dl) = W" and "height (rect dl) = H" and "0 < W" and "0 < H"
    and "case window_size of None \<Rightarrow> True | Some (Vw, Vh) \<Rightarrow> 0 < Vw \<and> 0 < Vh"
    and "nx = clamped 0 (W / 2) (x + dx * (W / 4))"
    and "ny = clamped 0 (H / 2) (y + dy * (H / 4))"
    and "s = base_fit_scale_spec window_size W H"
  shows "fst (get_page self page_num window_size
                (Some (\<lparr>point_x = x, point_y = y\<rparr>, dx, dy)) fit_screen) =
           Returned
             (ImageData
                (Pixmap dl (Matrix_mul (Matrix_scale s s) (Matrix_scale 2 2)) None
                   (Some \<lparr>x0 = nx, y0 = ny, x1 = nx + W / 2, y1 = ny + H / 2\<rparr>) False)
                ''ppm'',
              tl \<lparr>x0 = nx, y0 = ny, x1 = nx + W / 2, y1 = ny + H / 2\<rparr>) \<and>
         tl \<lparr>x0 = nx, y0 = ny, x1 = nx + W / 2, y1 = ny + H / 2\<rparr> =
           \<lparr>point_x = nx, point_y = ny\<rparr> \<and>
         width \<lparr>x0 = nx, y0 = ny, x1 = nx + W / 2, y1 = ny + H / 2\<rparr> = W / 2 \<and>
         height \<lparr>x0 = nx, y0 = ny, x1 = nx + W / 2, y1 = ny + H / 2\<rparr> = H / 2 \<and>
         0 \<le> nx \<and> nx \<le> W / 2 \<and> 0 \<le> ny \<and> ny \<le> H / 2 \<and> 0 < s"
proof -
  have "window_size = None \<or> (0 < width (rect dl) \<and> 0 < height (rect dl))"
    using assms(6-9) by simp
  then have s: "zoom_0 window_size (rect dl) = Inr s"
    using zoom_0_spec assms(6,7,13) by simp
  have w2: "(0::real) \<le> W / 2" and h2: "(0::real) \<le> H / 2"
    using assms(8,9) by simp_all
  have cx: "min (W / 2) (max 0 (x + dx * (W / 2 / 2))) = nx"
    using clamped_min_max [OF w2] assms(11) by simp
  have cy: "min (H / 2) (max 0 (y + dy * (H / 2 / 2))) = ny"
    using clamped_min_max [OF h2] assms(12) by simp
  have res: "fst (get_page self page_num window_size
                     (Some (\<lparr>point_x = x, point_y = y\<rparr>, dx, dy)) fit_screen) =
                Returned
                  (ImageData
                     (Pixmap dl (Matrix_mul (Matrix_scale s s) (Matrix_scale 2 2)) None
                        (Some \<lparr>x0 = nx, y0 = ny, x1 = nx + W / 2, y1 = ny + H / 2\<rparr>) False)
                     ''ppm'',
                   \<lparr>point_x = nx, point_y = ny\<rparr>)"
    using get_page_opened_fst [OF assms(1-5)] s assms(6,7) cx cy by simp
  have bx: "0 \<le> nx \<and> nx \<le> W / 2"
    using clamped_bounds [OF w2] assms(11) by simp
  have bnd_y: "0 \<le> ny \<and> ny \<le> H / 2"
    using clamped_bounds [OF h2] assms(12) by simp
  have pos: "0 < s"
    using base_fit_scale_spec_pos [OF assms(8,9,10)] assms(13) by simp
  show ?thesis
    using res bx bnd_y pos by (simp add: tl_def width_def height_def)
qed

theorem get_page_zoom_clip_witness:
  "opened paper_opened \<and>
   document paper_opened = Some \<lparr>doc_pages = [paper_page], isClosed = False\<rparr> \<and>
   (0::int) \<le> 0 \<and> 0 < int (num_pages paper_opened) \<and>
   width (rect (getDisplayList paper_page)) = 600 \<and>
   height (rect (getDisplayList paper_page)) = 800 \<and>
   (0::real) < 600 \<and> (0::real) < 800 \<and> (0::real) < 300 \<and>
   clamped 0 (600 / 2) (250 + 1 * (600 / 4)) = 300 \<and>
   clamped 0 (800 / 2) (100 + (- 1) * (800 / 4)) = 0 \<and>
   base_fit_scale_spec (Some (300, 300)) 600 800 = 3 / 8 \<and>
   fst (get_page paper_opened 0 (Some (300, 300))
          (Some (\<lparr>point_x = 250, point_y = 100\<rparr>, 1, - 1)) True) =
     Returned
       (ImageData
          (Pixmap (getDisplayList paper_page) (Matrix (3 / 4) 0 0 (3 / 4) 0 0) None
             (Some \<lparr>x0 = 300, y0 = 0, x1 = 600, y1 = 400\<rparr>) False)
          ''ppm'',
        \<lparr>point_x = 300, point_y = 0\<rparr>)"
proof -
  have dl: "getDisplayList paper_page =
              display_list_for (page_display_list_cache paper_opened)
                \<lparr>doc_pages = [paper_page], isClosed = False\<rparr> (nat 0)"
    by (simp add: paper_opened_eq display_list_for_def)
  have w: "width (rect (getDisplayList paper_page)) = 600"
    by (simp add: getDisplayList_def paper_page_def width_def)
  have h: "height (rect (getDisplayList paper_page)) = 800"
    by (simp add: getDisplayList_def paper_page_def height_def)
  have d: "document paper_opened = Some \<lparr>doc_pages = [paper_page], isClosed = False\<rparr>"
    by (simp add: paper_opened_eq)
  have n: "0 < int (num_pages paper_opened)"
    by (simp add: paper_opened_eq)
  have cx: "(300::real) = clamped 0 (600 / 2) (250 + 1 * (600 / 4))"
    by (simp add: clamped_def)
  have cy: "(0::real) = clamped 0 (800 / 2) (100 + (- 1) * (800 / 4))"
    by (simp add: clamped_def)
  have z: "(3 / 8 :: real) = base_fit_scale_spec (Some (300, 300)) 600 800"
    by (simp add: base_fit_scale_spec_def fit_scale_spec_def)
  have ws: "case Some (300::real, 300::real) of None \<Rightarrow> True
            | Some (Vw, Vh) \<Rightarrow> 0 < Vw \<and> 0 < Vh"
    by simp
  show ?thesis
    using get_page_zoom_clip [OF opened_paper_opened d _ n dl w h _ _ ws cx cy z, of True]
      opened_paper_opened d n w h cx [symmetric] cy [symmetric] z [symmetric]
    by (simp add: Matrix_scale_def tl_def)
qed

text \<open>
  C8. For every in-range page index of an open document whose page rectangle is
  \<open>(0, 0, W, H)\<close>, a call of \<open>get_page\<close> without zoom renders the entire page, with no clip,
  with the scaling matrix of the base fit-scale, and returns the top-left of the page
  rectangle \<open>(0, 0, W, H)\<close>, which is \<open>(0, 0)\<close>.
\<close>

theorem get_page_whole_page:
  assumes "opened self" and "document self = Some d"
    and "0 \<le> page_num" and "page_num < int (num_pages self)"
    and "dl = display_list_for (page_display_list_cache self) d (nat page_num)"
    and "rect dl = \<lparr>x0 = 0, y0 = 0, x1 = W, y1 = H\<rparr>" and "0 < W" and "0 < H"
    and "case window_size of None \<Rightarrow> True | Some (Vw, Vh) \<Rightarrow> 0 < Vw \<and> 0 < Vh"
    and "s = base_fit_scale_spec window_size W H"
  shows "fst (get_page self page_num window_size None fit_screen) =
           Returned (ImageData (Pixmap dl (Matrix_scale s s) None None False) ''ppm'',
                     tl \<lparr>x0 = 0, y0 = 0, x1 = W, y1 = H\<rparr>) \<and>
         tl \<lparr>x0 = 0, y0 = 0, x1 = W, y1 = H\<rparr> = \<lparr>point_x = 0, point_y = 0\<rparr> \<and>
         0 < s"
proof -
  have wh: "width (rect dl) = W \<and> height (rect dl) = H"
    using assms(6) by (simp add: width_def height_def)
  then have "window_size = None \<or> (0 < width (rect dl) \<and> 0 < height (rect dl))"
    using assms(7,8) by simp
  then have s: "zoom_0 window_size (rect dl) = Inr s"
    using zoom_0_spec wh assms(10) by simp
  have "fst (get_page self page_num window_size None fit_screen) =
          Returned (ImageData (Pixmap dl (Matrix_scale s s) None None False) ''ppm'',
                    tl (rect dl))"
    using get_page_opened_fst [OF assms(1-5)] s by simp
  moreover have "0 < s"
    using base_fit_scale_spec_pos [OF assms(7,8,9)] assms(10) by simp
  ultimately show ?thesis
    using assms(6) by (simp add: tl_def)
qed

theorem get_page_whole_page_witness:
  "opened paper_opened \<and>
   document paper_opened = Some \<lparr>doc_pages = [paper_page], isClosed = False\<rparr> \<and>
   (0::int) \<le> 0 \<and> 0 < int (num_pages paper_opened) \<and>
   rect (getDisplayList paper_page) = \<lparr>x0 = 0, y0 = 0, x1 = 600, y1 = 800\<rparr> \<and>
   (0::real) < 600 \<and> (0::real) < 800 \<and> (0::real) < 1200 \<and>
   base_fit_scale_spec (Some (1200, 1200)) 600 800 = 3 / 2 \<and>
   fst (get_page paper_opened 0 (Some (1200, 1200)) None True) =
     Returned (ImageData (Pixmap (getDisplayList paper_page) (Matrix_scale (3 / 2) (3 / 2))
                            None None False) ''ppm'',
               \<lparr>point_x = 0, point_y = 0\<rparr>)"
proof -
  have dl: "getDisplayList paper_page =
              display_list_for (page_display_list_cache paper_opened)
                \<lparr>doc_pages = [paper_page], isClosed = False\<rparr> (nat 0)"
    by (simp add: paper_opened_eq display_list_for_def)
  have r: "rect (getDisplayList paper_page) = \<lparr>x0 = 0, y0 = 0, x1 = 600, y1 = 800\<rparr>"
    by (simp add: getDisplayList_def paper_page_def)
  have d: "document paper_opened = Some \<lparr>doc_pages = [paper_page], isClosed = False\<rparr>"
    by (simp add: paper_opened_eq)
  have n: "0 < int (num_pages paper_opened)"
    by (simp add: paper_opened_eq)
  have z: "(3 / 2 :: real) = base_fit_scale_spec (Some (1200, 1200)) 600 800"
    by (simp add: base_fit_scale_spec_def fit_scale_spec_def)
  have ws: "case Some (1200::real, 1200::real) of None \<Rightarrow> True
            | Some (Vw, Vh) \<Rightarrow> 0 < Vw \<and> 0 < Vh"
    by simp
  show ?thesis
    using get_page_whole_page [OF opened_paper_opened d _ n dl r _ _ ws z, of True]
      opened_paper_opened d n r z [symmetric]
    by (simp add: tl_def)
qed

section \<open>Sequences of page operations\<close>

lemma py_index_length: "length xs = length ys \<Longrightarrow> py_index xs i = py_index ys i"
  by (simp add: py_index_def)

lemma create_display_list_opened_any:
  assumes "opened self" "document self = Some d"
    and "py_index (replicate (num_pages self) ()) i = Some j"
  shows "create_display_list (document self) i =
           Inr (getDisplayList (doc_pages d ! j), [GetDisplayList j])"
proof -
  have "py_index (doc_pages d) i = Some j"
    using assms py_index_length [of "doc_pages d" "replicate (num_pages self) ()" i]
    by (simp add: opened_def)
  then show ?thesis
    using assms by (simp add: create_display_list_def Document_getitem_def opened_def)
qed

lemma get_page_opened_snd_any:
  assumes "opened self" "document self = Some d"
  shows "snd (get_page self i w z f) =
           (case py_index (page_display_list_cache self) i of
              None \<Rightarrow> (self, [])
            | Some j \<Rightarrow>
                (self\<lparr>page_display_list_cache :=
                        (page_display_list_cache self)
                          [j := Some (display_list_for (page_display_list_cache self) d j)]\<rparr>,
                 fill_events (page_display_list_cache self) j))"
proof (cases "py_index (page_display_list_cache self) i")
  case None
  then show ?thesis by (simp add: get_page_def)
next
  case (Some j)
  have "py_index (replicate (num_pages self) ()) i = Some j"
    using Some assms(1)
      py_index_length [of "page_display_list_cache self" "replicate (num_pages self) ()" i]
    by (simp add: opened_def)
  note cr = create_display_list_opened_any [OF assms this]
  show ?thesis
  proof (cases "page_display_list_cache self ! j")
    case None
    then show ?thesis
      using Some cr
      by (simp add: get_page_def display_list_for_def fill_events_def Let_def
            split: sum.splits option.splits prod.splits)
  next
    case (Some dl)
    then show ?thesis
      using \<open>py_index (page_display_list_cache self) i = Some j\<close> slot_update_same [OF Some]
      by (simp add: get_page_def display_list_for_def fill_events_def Let_def
            split: sum.splits option.splits prod.splits)
  qed
qed

lemma get_page_ppm_for_crop_opened_snd_any:
  assumes "opened self" "document self = Some d"
  shows "snd (get_page_ppm_for_crop self i) =
           (case py_index (page_crop_image_list_cache self) i of
              None \<Rightarrow> (self, [])
            | Some j \<Rightarrow>
                (self\<lparr>page_crop_image_list_cache :=
                        (page_crop_image_list_cache self)
                          [j := Some (display_list_for (page_crop_image_list_cache self) d j)]\<rparr>,
                 fill_events (page_crop_image_list_cache self) j))"
proof (cases "py_index (page_crop_image_list_cache self) i")
  case None
  then show ?thesis by (simp add: get_page_ppm_for_crop_def)
next
  case (Some j)
  have "py_index (replicate (num_pages self) ()) i = Some j"
    using Some assms(1)
      py_index_length [of "page_crop_image_list_cache self" "replicate (num_pages self) ()" i]
    by (simp add: opened_def)
  note cr = create_display_list_opened_any [OF assms this]
  show ?thesis
  proof (cases "page_crop_image_list_cache self ! j")
    case None
    then show ?thesis
      using Some cr
      by (simp add: get_page_ppm_for_crop_def display_list_for_def fill_events_def Let_def)
  next
    case (Some dl)
    then show ?thesis
      using \<open>py_index (page_crop_image_list_cache self) i = Some j\<close> slot_update_same [OF Some]
      by (simp add: get_page_ppm_for_crop_def display_list_for_def fill_events_def Let_def)
  qed
qed

lemma materialisations_fill_events:
  "materialisations k (fill_events cache j) = (if j = k \<and> cache ! j = None then 1 else 0)"
  by (simp add: materialisations_def fill_events_def split: option.splits)

lemma materialisations_append:
  "materialisations k (evs @ evs') = materialisations k evs + materialisations k evs'"
  by (simp add: materialisations_def)

lemma opened_document: "opened self \<Longrightarrow> \<exists>d. document self = Some d"
  by (auto simp: opened_def split: option.splits)

lemma page_request_opened:
  assumes "opened self" "is_page_request rq"
  shows "opened (fst (perform lib rq self))"
proof -
  obtain d where d: "document self = Some d"
    using opened_document [OF assms(1)] by blast
  show ?thesis
  proof (cases rq)
    case (GetPagePpmForCrop i)
    then show ?thesis
      using assms(1) d get_page_ppm_for_crop_opened_snd_any [OF assms(1) d, of i]
      by (simp add: opened_def split: option.splits)
  next
    case (GetPage i w z f)
    then show ?thesis
      using assms(1) d get_page_opened_snd_any [OF assms(1) d, of i w z f]
      by (simp add: opened_def split: option.splits)
  qed (use assms(2) in simp_all)
qed

lemma page_request_num_pages:
  assumes "opened self" "is_page_request rq"
  shows "num_pages (fst (perform lib rq self)) = num_pages self"
proof -
  obtain d where d: "document self = Some d"
    using opened_document [OF assms(1)] by blast
  show ?thesis
  proof (cases rq)
    case (GetPagePpmForCrop i)
    then show ?thesis
      using get_page_ppm_for_crop_opened_snd_any [OF assms(1) d, of i]
      by (simp split: option.splits)
  next
    case (GetPage i w z f)
    then show ?thesis
      using get_page_opened_snd_any [OF assms(1) d, of i w z f]
      by (simp split: option.splits)
  qed (use assms(2) in simp_all)
qed

lemma page_request_keeps_display_slot:
  assumes "opened self" "is_page_request rq" "page_display_list_cache self ! k = Some dl"
  shows "page_display_list_cache (fst (perform lib rq self)) ! k = Some dl"
proof -
  obtain d where d: "document self = Some d"
    using opened_document [OF assms(1)] by blast
  show ?thesis
  proof (cases rq)
    case (GetPagePpmForCrop i)
    then show ?thesis
      using assms(3) get_page_ppm_for_crop_opened_snd_any [OF assms(1) d, of i]
      by (simp split: option.splits)
  next
    case (GetPage i w z f)
    show ?thesis
    proof (cases "py_index (page_display_list_cache self) i")
      case None
      then show ?thesis
        using GetPage assms(3) get_page_opened_snd_any [OF assms(1) d, of i w z f] by simp
    next
      case (Some j)
      then show ?thesis
        using GetPage assms(3) get_page_opened_snd_any [OF assms(1) d, of i w z f]
          py_index_bound [OF Some]
        by (cases "j = k") (simp_all add: display_list_for_def)
    qed
  qed (use assms(2) in simp_all)
qed

lemma page_request_keeps_crop_slot:
  assumes "opened self" "is_page_request rq" "page_crop_image_list_cache self ! k = Some dl"
  shows "page_crop_image_list_cache (fst (perform lib rq self)) ! k = Some dl"
proof -
  obtain d where d: "document self = Some d"
    using opened_document [OF assms(1)] by blast
  show ?thesis
  proof (cases rq)
    case (GetPage i w z f)
    then show ?thesis
      using assms(3) get_page_opened_snd_any [OF assms(1) d, of i w z f]
      by (simp split: option.splits)
  next
    case (GetPagePpmForCrop i)
    show ?thesis
    proof (cases "py_index (page_crop_image_list_cache self) i")
      case None
      then show ?thesis
        using GetPagePpmForCrop assms(3) get_page_ppm_for_crop_opened_snd_any [OF assms(1) d, of i]
        by simp
    next
      case (Some j)
      then show ?thesis
        using GetPagePpmForCrop assms(3) get_page_ppm_for_crop_opened_snd_any [OF assms(1) d, of i]
          py_index_bound [OF Some]
        by (cases "j = k") (simp_all add: display_list_for_def)
    qed
  qed (use assms(2) in simp_all)
qed

lemma page_request_no_exit: "is_page_request rq \<Longrightarrow> \<not> exits lib rq self"
  by (cases rq) simp_all

lemma run_Cons_page:
  "is_page_request rq \<Longrightarrow>
     run lib (rq # rqs) self =
       (fst (run lib rqs (fst (perform lib rq self))),
        snd (perform lib rq self) @ snd (run lib rqs (fst (perform lib rq self))))"
  by (simp add: page_request_no_exit split: prod.splits)

lemma run_page_requests:
  assumes "list_all is_page_request rqs" "opened self"
  shows "opened (fst (run lib rqs self)) \<and>
         num_pages (fst (run lib rqs self)) = num_pages self \<and>
         (page_display_list_cache self ! k = Some dl \<longrightarrow>
            page_display_list_cache (fst (run lib rqs self)) ! k = Some dl) \<and>
         (page_crop_image_list_cache self ! k = Some dl' \<longrightarrow>
            page_crop_image_list_cache (fst (run lib rqs self)) ! k = Some dl')"
  using assms
proof (induction rqs arbitrary: self)
  case Nil
  then show ?case by simp
next
  case (Cons rq rqs)
  have pr: "is_page_request rq" and rest: "list_all is_page_request rqs"
    using Cons.prems(1) by simp_all
  have op: "opened (fst (perform lib rq self))"
    using page_request_opened [OF Cons.prems(2) pr] .
  show ?case
    using Cons.IH [OF rest op] run_Cons_page [OF pr, of lib rqs self]
      page_request_num_pages [OF Cons.prems(2) pr, of lib]
      page_request_keeps_display_slot [OF Cons.prems(2) pr, of k dl lib]
      page_request_keeps_crop_slot [OF Cons.prems(2) pr, of k dl' lib]
    by simp
qed

lemma page_request_count:
  assumes "opened self" "is_page_request rq" "k < num_pages self"
  shows "materialisations k (snd (perform lib rq self)) + empty_slots (fst (perform lib rq self)) k
           = empty_slots self k"
proof -
  obtain d where d: "document self = Some d"
    using opened_document [OF assms(1)] by blast
  have kd: "k < length (page_display_list_cache self)"
    and kc: "k < length (page_crop_image_list_cache self)"
    using assms(1,3) by (simp_all add: opened_def)
  show ?thesis
  proof (cases rq)
    case (GetPage i w z f)
    show ?thesis
    proof (cases "py_index (page_display_list_cache self) i")
      case None
      then show ?thesis
        using GetPage get_page_opened_snd_any [OF assms(1) d, of i w z f]
        by (simp add: materialisations_def)
    next
      case (Some j)
      then show ?thesis
        using GetPage get_page_opened_snd_any [OF assms(1) d, of i w z f] kd
        by (cases "j = k")
           (auto simp: materialisations_fill_events empty_slots_def display_list_for_def
              split: option.splits)
    qed
  next
    case (GetPagePpmForCrop i)
    show ?thesis
    proof (cases "py_index (page_crop_image_list_cache self) i")
      case None
      then show ?thesis
        using GetPagePpmForCrop get_page_ppm_for_crop_opened_snd_any [OF assms(1) d, of i]
        by (simp add: materialisations_def)
    next
      case (Some j)
      then show ?thesis
        using GetPagePpmForCrop get_page_ppm_for_crop_opened_snd_any [OF assms(1) d, of i] kc
        by (cases "j = k")
           (auto simp: materialisations_fill_events empty_slots_def display_list_for_def
              split: option.splits)
    qed
  qed (use assms(2) in simp_all)
qed

lemma run_count:
  assumes "list_all is_page_request rqs" "opened self" "k < num_pages self"
  shows "materialisations k (snd (run lib rqs self)) + empty_slots (fst (run lib rqs self)) k
           = empty_slots self k"
  using assms
proof (induction rqs arbitrary: self)
  case Nil
  then show ?case by (simp add: materialisations_def)
next
  case (Cons rq rqs)
  have pr: "is_page_request rq" and rest: "list_all is_page_request rqs"
    using Cons.prems(1) by simp_all
  have op: "opened (fst (perform lib rq self))"
    using page_request_opened [OF Cons.prems(2) pr] .
  have k': "k < num_pages (fst (perform lib rq self))"
    using page_request_num_pages [OF Cons.prems(2) pr, of lib] Cons.prems(3) by simp
  show ?case
    using Cons.IH [OF rest op k'] page_request_count [OF Cons.prems(2) pr Cons.prems(3), of lib]
      run_Cons_page [OF pr, of lib rqs self]
    by (simp add: materialisations_append)
qed


lemma empty_slots_le_2: "empty_slots self k \<le> 2"
  by (simp add: empty_slots_def)

lemma get_page_opened:
  assumes "opened self" "document self = Some d" "0 \<le> i" "i < int (num_pages self)"
    and "dl = display_list_for (page_display_list_cache self) d (nat i)"
  shows "get_page self i w z f =
           (page_image dl w z,
            self\<lparr>page_display_list_cache := (page_display_list_cache self)[nat i := Some dl]\<rparr>,
            fill_events (page_display_list_cache self) (nat i))"
proof -
  have "fst (get_page self i w z f) = page_image dl w z"
    using get_page_opened_fst [OF assms]
    by (simp add: page_image_def Let_def getPixmap_def getImageData_def Rect_of_point_def tl_def
          split: sum.splits option.splits prod.splits)
  then show ?thesis
    using get_page_opened_snd [OF assms(1-4), of w z f] assms(5)
    by (metis prod.collapse)
qed

lemma get_page_ppm_for_crop_opened_image:
  assumes "opened self" "document self = Some d" "0 \<le> i" "i < int (num_pages self)"
    and "dl = display_list_for (page_crop_image_list_cache self) d (nat i)"
  shows "get_page_ppm_for_crop self i =
           (Returned (crop_image dl),
            self\<lparr>page_crop_image_list_cache := (page_crop_image_list_cache self)[nat i := Some dl]\<rparr>,
            fill_events (page_crop_image_list_cache self) (nat i))"
  using get_page_ppm_for_crop_opened [OF assms(1-4)] assms(5)
  by (simp add: crop_image_def getPixmap_def getImageData_def)

lemma fill_events_if:
  "fill_events cache k = (if cache ! k = None then [GetDisplayList k] else [])"
  by (simp add: fill_events_def split: option.splits)

lemma display_list_for_None:
  "cache ! k = None \<Longrightarrow> display_list_for cache d k = getDisplayList (doc_pages d ! k)"
  by (simp add: display_list_for_def)

lemma display_list_for_Some:
  "cache ! k = Some dl \<Longrightarrow> display_list_for cache d k = dl"
  by (simp add: display_list_for_def)

lemma page_request_document:
  assumes "opened self" "is_page_request rq"
  shows "document (fst (perform lib rq self)) = document self"
proof -
  obtain d where d: "document self = Some d"
    using opened_document [OF assms(1)] by blast
  show ?thesis
  proof (cases rq)
    case (GetPagePpmForCrop i)
    then show ?thesis
      using get_page_ppm_for_crop_opened_snd_any [OF assms(1) d, of i]
      by (simp split: option.splits)
  next
    case (GetPage i w z f)
    then show ?thesis
      using get_page_opened_snd_any [OF assms(1) d, of i w z f]
      by (simp split: option.splits)
  qed (use assms(2) in simp_all)
qed

lemma run_page_requests_document:
  assumes "list_all is_page_request rqs" "opened self"
  shows "document (fst (run lib rqs self)) = document self"
  using assms
proof (induction rqs arbitrary: self)
  case Nil
  then show ?case by simp
next
  case (Cons rq rqs)
  have pr: "is_page_request rq" and rest: "list_all is_page_request rqs"
    using Cons.prems(1) by simp_all
  have op: "opened (fst (perform lib rq self))"
    using page_request_opened [OF Cons.prems(2) pr] .
  show ?case
    using Cons.IH [OF rest op] run_Cons_page [OF pr, of lib rqs self]
      page_request_document [OF Cons.prems(2) pr, of lib]
    by simp
qed

text \<open>
  C6, as the code has it. Each of the two caches fills the slot of an in-range page at
  most once while the document is open. A call of \<open>get_page\<close> runs the materialisation step
  exactly once if the slot of \<open>page_display_list_cache\<close> is empty and not at all otherwise;
  it stores the materialised display list in the slot (or leaves the stored one) and
  renders from it. After any further page operations the slot still holds that display
  list, and a later \<open>get_page\<close> for the page renders from the stored display list, runs no
  materialisation and changes nothing. The same holds for \<open>get_page_ppm_for_crop\<close> and
  \<open>page_crop_image_list_cache\<close>. Over any sequence of page operations the materialisation
  step runs on a page at most as often as the page has empty slots at the start, so at
  most twice.
\<close>

theorem each_cache_slot_filled_once:
  assumes "opened self" and "document self = Some d"
    and "0 \<le> page_num" and "page_num < int (num_pages self)"
    and "list_all is_page_request rqs"
    and "dl = display_list_for (page_display_list_cache self) d (nat page_num)"
    and "s1 = fst (snd (get_page self page_num w z f))"
    and "s2 = fst (run lib rqs s1)"
    and "cl = display_list_for (page_crop_image_list_cache self) d (nat page_num)"
    and "t1 = fst (snd (get_page_ppm_for_crop self page_num))"
    and "t2 = fst (run lib rqs t1)"
  shows "get_page self page_num w z f =
           (page_image dl w z,
            self\<lparr>page_display_list_cache :=
                   (page_display_list_cache self)[nat page_num := Some dl]\<rparr>,
            if page_display_list_cache self ! nat page_num = None
            then [GetDisplayList (nat page_num)] else []) \<and>
         (page_display_list_cache self ! nat page_num = None \<longrightarrow>
            dl = getDisplayList (doc_pages d ! nat page_num)) \<and>
         (\<forall>old. page_display_list_cache self ! nat page_num = Some old \<longrightarrow> dl = old) \<and>
         page_display_list_cache s1 ! nat page_num = Some dl \<and>
         page_display_list_cache s2 ! nat page_num = Some dl \<and>
         get_page s2 page_num w' z' f' = (page_image dl w' z', s2, []) \<and>
         get_page_ppm_for_crop self page_num =
           (Returned (crop_image cl),
            self\<lparr>page_crop_image_list_cache :=
                   (page_crop_image_list_cache self)[nat page_num := Some cl]\<rparr>,
            if page_crop_image_list_cache self ! nat page_num = None
            then [GetDisplayList (nat page_num)] else []) \<and>
         (page_crop_image_list_cache self ! nat page_num = None \<longrightarrow>
            cl = getDisplayList (doc_pages d ! nat page_num)) \<and>
         (\<forall>old. page_crop_image_list_cache self ! nat page_num = Some old \<longrightarrow> cl = old) \<and>
         page_crop_image_list_cache t1 ! nat page_num = Some cl \<and>
         page_crop_image_list_cache t2 ! nat page_num = Some cl \<and>
         get_page_ppm_for_crop t2 page_num = (Returned (crop_image cl), t2, []) \<and>
         materialisations (nat page_num) (snd (run lib rqs self)) \<le> empty_slots self (nat page_num) \<and>
         empty_slots self (nat page_num) \<le> 2"
proof -
  have kd: "nat page_num < length (page_display_list_cache self)"
    and kc: "nat page_num < length (page_crop_image_list_cache self)"
    and kn: "nat page_num < num_pages self"
    using assms(1,3,4) by (simp_all add: opened_def)
  \<comment> \<open>the display-list cache, filled by \<open>get_page\<close>\<close>
  have a1: "get_page self page_num w z f =
           (page_image dl w z,
            self\<lparr>page_display_list_cache :=
                   (page_display_list_cache self)[nat page_num := Some dl]\<rparr>,
            if page_display_list_cache self ! nat page_num = None
            then [GetDisplayList (nat page_num)] else [])"
    using get_page_opened [OF assms(1-4) assms(6)] by (simp add: fill_events_if)
  have a2: "page_display_list_cache self ! nat page_num = None \<longrightarrow>
              dl = getDisplayList (doc_pages d ! nat page_num)"
    using assms(6) by (simp add: display_list_for_None)
  have a3: "\<forall>old. page_display_list_cache self ! nat page_num = Some old \<longrightarrow> dl = old"
    using assms(6) by (simp add: display_list_for_Some)
  have a4: "page_display_list_cache s1 ! nat page_num = Some dl"
    using a1 kd assms(7) by simp
  have s1p: "s1 = fst (perform lib (GetPage page_num w z f) self)"
    using assms(7) by simp
  have op1: "opened s1"
    using page_request_opened [OF assms(1), of "GetPage page_num w z f" lib] s1p by simp
  have r1: "opened s2 \<and> num_pages s2 = num_pages s1 \<and>
            page_display_list_cache s2 ! nat page_num = Some dl"
    using run_page_requests [OF assms(5) op1, of lib "nat page_num" dl] a4 assms(8) by simp
  have n1: "num_pages s1 = num_pages self"
    using page_request_num_pages [OF assms(1), of "GetPage page_num w z f" lib] s1p by simp
  have d1: "document s1 = Some d"
    using page_request_document [OF assms(1), of "GetPage page_num w z f" lib] s1p assms(2)
    by simp
  have d2: "document s2 = Some d"
    using run_page_requests_document [OF assms(5) op1, of lib] d1 assms(8) by simp
  have in2: "page_num < int (num_pages s2)"
    using r1 n1 assms(4) by simp
  have dl2: "dl = display_list_for (page_display_list_cache s2) d (nat page_num)"
    using r1 by (simp add: display_list_for_Some)
  have a6: "get_page s2 page_num w' z' f' = (page_image dl w' z', s2, [])"
    using get_page_opened [OF conjunct1 [OF r1] d2 assms(3) in2 dl2, of w' z' f'] r1
      slot_update_same [of "page_display_list_cache s2" "nat page_num" dl]
    by (simp add: fill_events_if)
  \<comment> \<open>the crop-image cache, filled by \<open>get_page_ppm_for_crop\<close>\<close>
  have b1: "get_page_ppm_for_crop self page_num =
           (Returned (crop_image cl),
            self\<lparr>page_crop_image_list_cache :=
                   (page_crop_image_list_cache self)[nat page_num := Some cl]\<rparr>,
            if page_crop_image_list_cache self ! nat page_num = None
            then [GetDisplayList (nat page_num)] else [])"
    using get_page_ppm_for_crop_opened_image [OF assms(1-4) assms(9)] by (simp add: fill_events_if)
  have b2: "page_crop_image_list_cache self ! nat page_num = None \<longrightarrow>
              cl = getDisplayList (doc_pages d ! nat page_num)"
    using assms(9) by (simp add: display_list_for_None)
  have b3: "\<forall>old. page_crop_image_list_cache self ! nat page_num = Some old \<longrightarrow> cl = old"
    using assms(9) by (simp add: display_list_for_Some)
  have b4: "page_crop_image_list_cache t1 ! nat page_num = Some cl"
    using b1 kc assms(10) by simp
  have t1p: "t1 = fst (perform lib (GetPagePpmForCrop page_num) self)"
    using assms(10) by simp
  have opt1: "opened t1"
    using page_request_opened [OF assms(1), of "GetPagePpmForCrop page_num" lib] t1p by simp
  have q1: "opened t2 \<and> num_pages t2 = num_pages t1 \<and>
            page_crop_image_list_cache t2 ! nat page_num = Some cl"
    using run_page_requests [OF assms(5) opt1, of lib "nat page_num" _ cl] b4 assms(11) by simp
  have m1: "num_pages t1 = num_pages self"
    using page_request_num_pages [OF assms(1), of "GetPagePpmForCrop page_num" lib] t1p by simp
  have e1: "document t1 = Some d"
    using page_request_document [OF assms(1), of "GetPagePpmForCrop page_num" lib] t1p assms(2)
    by simp
  have e2: "document t2 = Some d"
    using run_page_requests_document [OF assms(5) opt1, of lib] e1 assms(11) by simp
  have int2: "page_num < int (num_pages t2)"
    using q1 m1 assms(4) by simp
  have cl2: "cl = display_list_for (page_crop_image_list_cache t2) d (nat page_num)"
    using q1 by (simp add: display_list_for_Some)
  have b6: "get_page_ppm_for_crop t2 page_num = (Returned (crop_image cl), t2, [])"
    using get_page_ppm_for_crop_opened_image [OF conjunct1 [OF q1] e2 assms(3) int2 cl2] q1
      slot_update_same [of "page_crop_image_list_cache t2" "nat page_num" cl]
    by (simp add: fill_events_if)
  have cnt: "materialisations (nat page_num) (snd (run lib rqs self)) \<le> empty_slots self (nat page_num)"
    using run_count [OF assms(5) assms(1) kn, of lib] by simp
  show ?thesis
    using a1 a2 a3 a4 r1 a6 b1 b2 b3 b4 q1 b6 cnt empty_slots_le_2 by blast
qed

theorem each_cache_slot_filled_once_witness:
  "opened paper_opened \<and>
   document paper_opened = Some \<lparr>doc_pages = [paper_page], isClosed = False\<rparr> \<and>
   (0::int) \<le> 0 \<and> 0 < int (num_pages paper_opened) \<and>
   list_all is_page_request [GetPagePpmForCrop 0, GetPage 0 (Some (300, 300)) None False] \<and>
   page_display_list_cache paper_opened ! nat 0 = None \<and>
   get_page paper_opened 0 None None True =
     (page_image (getDisplayList paper_page) None None,
      paper_opened\<lparr>page_display_list_cache := [Some (getDisplayList paper_page)]\<rparr>,
      [GetDisplayList 0]) \<and>
   get_page
     (fst (run example_files [GetPagePpmForCrop 0, GetPage 0 (Some (300, 300)) None False]
             (fst (snd (get_page paper_opened 0 None None True)))))
     0 (Some (300, 300)) None False =
     (page_image (getDisplayList paper_page) (Some (300, 300)) None,
      fst (run example_files [GetPagePpmForCrop 0, GetPage 0 (Some (300, 300)) None False]
             (fst (snd (get_page paper_opened 0 None None True)))),
      [])"
proof -
  have d: "document paper_opened = Some \<lparr>doc_pages = [paper_page], isClosed = False\<rparr>"
    by (simp add: paper_opened_eq)
  have n: "0 < int (num_pages paper_opened)"
    by (simp add: paper_opened_eq)
  have l: "list_all is_page_request [GetPagePpmForCrop 0, GetPage 0 (Some (300, 300)) None False]"
    by simp
  have c: "page_display_list_cache paper_opened ! nat 0 = None"
    by (simp add: paper_opened_eq)
  have dl: "getDisplayList paper_page =
              display_list_for (page_display_list_cache paper_opened)
                \<lparr>doc_pages = [paper_page], isClosed = False\<rparr> (nat 0)"
    by (simp add: paper_opened_eq display_list_for_def)
  have u: "(page_display_list_cache paper_opened)[nat 0 := Some (getDisplayList paper_page)] =
             [Some (getDisplayList paper_page)]"
    by (simp add: paper_opened_eq)
  note t = each_cache_slot_filled_once [OF opened_paper_opened d _ n l dl refl refl refl refl refl,
        where lib = example_files and w = None and z = None and f = True
          and w' = "Some (300, 300)" and z' = None and f' = False]
  have a: "get_page paper_opened 0 None None True =
     (page_image (getDisplayList paper_page) None None,
      paper_opened\<lparr>page_display_list_cache := [Some (getDisplayList paper_page)]\<rparr>,
      [GetDisplayList 0])"
    using t c u by simp
  have b: "get_page
     (fst (run example_files [GetPagePpmForCrop 0, GetPage 0 (Some (300, 300)) None False]
             (fst (snd (get_page paper_opened 0 None None True)))))
     0 (Some (300, 300)) None False =
     (page_image (getDisplayList paper_page) (Some (300, 300)) None,
      fst (run example_files [GetPagePpmForCrop 0, GetPage 0 (Some (300, 300)) None False]
             (fst (snd (get_page paper_opened 0 None None True)))),
      [])"
    using t by blast
  show ?thesis
    using opened_paper_opened d n l c a b by blast
qed

text \<open>
  C6 as stated fails: on a newly opened one-page document, \<open>get_page\<close> for page 0 runs the
  materialisation step, and the following \<open>get_page_ppm_for_crop\<close> for page 0 runs it
  again; the two calls together run it twice.
\<close>

theorem materialised_twice_counterexample:
  "snd (snd (get_page paper_opened 0 None None True)) = [GetDisplayList 0] \<and>
   snd (snd (get_page_ppm_for_crop (fst (snd (get_page paper_opened 0 None None True))) 0)) =
     [GetDisplayList 0] \<and>
   materialisations 0
     (snd (run example_files [GetPage 0 None None True, GetPagePpmForCrop 0] paper_opened)) = 2"
  by (simp add: paper_opened_eq get_page_def get_page_ppm_for_crop_def py_index_def
        create_display_list_def Document_getitem_def zoom_0_def materialisations_def Let_def)

section \<open>The length of the caches\<close>

lemma clear_cache_cache_inv: "cache_inv (clear_cache self)"
  by (simp add: clear_cache_def cache_inv_def)

lemma get_page_state_cases:
  "fst (snd (get_page self i w z f)) = self \<or>
   (\<exists>k dl. fst (snd (get_page self i w z f)) =
             self\<lparr>page_display_list_cache := (page_display_list_cache self)[k := Some dl]\<rparr>)"
proof (cases "py_index (page_display_list_cache self) i")
  case None
  then show ?thesis by (simp add: get_page_def)
next
  case (Some k)
  note k = this
  show ?thesis
  proof (cases "page_display_list_cache self ! k")
    case (Some dl)
    then have "fst (snd (get_page self i w z f)) = self"
      using k
      by (simp add: get_page_def Let_def split: sum.splits option.splits prod.splits)
    then show ?thesis by simp
  next
    case None
    note empty = this
    show ?thesis
    proof (cases "create_display_list (document self) i")
      case (Inl e)
      then have "fst (snd (get_page self i w z f)) = self"
        using k empty by (simp add: get_page_def)
      then show ?thesis by simp
    next
      case (Inr r)
      obtain dl evs where r: "r = (dl, evs)"
        by (cases r) blast
      have "fst (snd (get_page self i w z f)) =
              self\<lparr>page_display_list_cache := (page_display_list_cache self)[k := Some dl]\<rparr>"
        using k empty Inr r
        by (simp add: get_page_def Let_def split: sum.splits option.splits prod.splits)
      then show ?thesis by blast
    qed
  qed
qed

lemma get_page_ppm_for_crop_state_cases:
  "fst (snd (get_page_ppm_for_crop self i)) = self \<or>
   (\<exists>k dl. fst (snd (get_page_ppm_for_crop self i)) =
             self\<lparr>page_crop_image_list_cache := (page_crop_image_list_cache self)[k := Some dl]\<rparr>)"
proof (cases "py_index (page_crop_image_list_cache self) i")
  case None
  then show ?thesis by (simp add: get_page_ppm_for_crop_def)
next
  case (Some k)
  note k = this
  show ?thesis
  proof (cases "page_crop_image_list_cache self ! k")
    case (Some dl)
    then have "fst (snd (get_page_ppm_for_crop self i)) = self"
      using k by (simp add: get_page_ppm_for_crop_def Let_def)
    then show ?thesis by simp
  next
    case None
    note empty = this
    show ?thesis
    proof (cases "create_display_list (document self) i")
      case (Inl e)
      then have "fst (snd (get_page_ppm_for_crop self i)) = self"
        using k empty by (simp add: get_page_ppm_for_crop_def)
      then show ?thesis by simp
    next
      case (Inr r)
      obtain dl evs where r: "r = (dl, evs)"
        by (cases r) blast
      have "fst (snd (get_page_ppm_for_crop self i)) =
              self\<lparr>page_crop_image_list_cache := (page_crop_image_list_cache self)[k := Some dl]\<rparr>"
        using k empty Inr r by (simp add: get_page_ppm_for_crop_def Let_def)
      then show ?thesis by blast
    qed
  qed
qed

lemma cache_inv_display_update:
  "cache_inv self \<Longrightarrow>
     cache_inv (self\<lparr>page_display_list_cache := (page_display_list_cache self)[k := v]\<rparr>)"
  by (simp add: cache_inv_def has_open_document_def)

lemma cache_inv_crop_update:
  "cache_inv self \<Longrightarrow>
     cache_inv (self\<lparr>page_crop_image_list_cache := (page_crop_image_list_cache self)[k := v]\<rparr>)"
  by (simp add: cache_inv_def has_open_document_def)

lemma get_page_cache_inv:
  "cache_inv self \<Longrightarrow> cache_inv (fst (snd (get_page self i w z f)))"
  using get_page_state_cases [of self i w z f] cache_inv_display_update [of self]
  by (elim disjE exE) simp_all

lemma get_page_ppm_for_crop_cache_inv:
  "cache_inv self \<Longrightarrow> cache_inv (fst (snd (get_page_ppm_for_crop self i)))"
  using get_page_ppm_for_crop_state_cases [of self i] cache_inv_crop_update [of self]
  by (elim disjE exE) simp_all

lemma open_document_cache_inv:
  "cache_inv self \<Longrightarrow> cache_inv (fst (snd (open_document lib self doc_fname)))"
  by (auto simp: open_document_def cache_inv_def has_open_document_def Let_def split: sum.splits)

lemma close_document_cache_inv:
  "cache_inv self \<Longrightarrow> cache_inv (fst (snd (close_document self)))"
  by (auto simp: close_document_def cache_inv_def has_open_document_def clear_cache_def
        split: option.splits)

lemma perform_cache_inv: "cache_inv self \<Longrightarrow> cache_inv (fst (perform lib rq self))"
  by (cases rq)
     (simp_all add: get_page_cache_inv get_page_ppm_for_crop_cache_inv open_document_cache_inv
        close_document_cache_inv clear_cache_cache_inv)

lemma run_cache_inv: "cache_inv self \<Longrightarrow> cache_inv (fst (run lib rqs self))"
proof (induction rqs arbitrary: self)
  case Nil
  then show ?case by simp
next
  case (Cons rq rqs)
  obtain s' evs where p: "perform lib rq self = (s', evs)"
    by (cases "perform lib rq self") blast
  have inv': "cache_inv s'"
    using perform_cache_inv [OF Cons.prems, of lib rq] p by simp
  obtain s'' evs' where r: "run lib rqs s' = (s'', evs')"
    by (cases "run lib rqs s'") blast
  have "cache_inv s''"
    using Cons.IH [OF inv', of ] r by simp
  then show ?case
    using p r inv' by simp
qed

lemma cache_inv_not_open:
  "cache_inv self \<Longrightarrow> \<not> has_open_document self \<Longrightarrow>
     num_pages self = 0 \<and> page_display_list_cache self = [] \<and>
     page_crop_image_list_cache self = []"
  by (auto simp: cache_inv_def)

lemma close_document_opened:
  assumes "opened self" "document self = Some d"
  shows "close_document self =
           (Returned (),
            \<lparr>num_pages = 0, page_display_list_cache = [], page_crop_image_list_cache = [],
               document = Some (d\<lparr>isClosed := True\<rparr>)\<rparr>,
            [DocumentClose])"
  using assms by (simp add: close_document_def clear_cache_def opened_def)

text \<open>
  C7. A new object has page count 0 and empty caches. Every operation (\<open>clear_cache\<close>,
  \<open>open_document\<close>, \<open>close_document\<close> and the two page operations, whatever their outcome)
  preserves the invariant that both caches have exactly \<open>num_pages\<close> entries and that the
  page count, and so the length of both caches, is 0 whenever the object holds no open
  document; hence every object reached from a new one by any sequence of calls satisfies
  it. Closing an open document returns, leaves no open document, and sets the page count
  to 0 and both caches to the empty list. Opening a document after that gives the page
  count of the new document and two caches of that length with every slot empty: nothing
  of the caches of the earlier document is kept.
\<close>

theorem cache_lengths_follow_page_count:
  "num_pages init = 0 \<and> page_display_list_cache init = [] \<and>
   page_crop_image_list_cache init = [] \<and>
   cache_inv init \<and>
   cache_inv (clear_cache self) \<and>
   (cache_inv self \<longrightarrow> cache_inv (fst (perform lib rq self))) \<and>
   cache_inv (fst (run lib rqs init)) \<and>
   (cache_inv self \<longrightarrow>
      length (page_display_list_cache self) = num_pages self \<and>
      length (page_crop_image_list_cache self) = num_pages self) \<and>
   (cache_inv other \<and> \<not> has_open_document other \<longrightarrow>
      num_pages other = 0 \<and> page_display_list_cache other = [] \<and>
      page_crop_image_list_cache other = []) \<and>
   (opened self \<and> document self = Some d \<longrightarrow>
      close_document self =
        (Returned (),
         \<lparr>num_pages = 0, page_display_list_cache = [], page_crop_image_list_cache = [],
            document = Some (d\<lparr>isClosed := True\<rparr>)\<rparr>,
         [DocumentClose]) \<and>
      \<not> has_open_document (fst (snd (close_document self)))) \<and>
   (opened self \<and> lib doc_fname = Inr ps \<longrightarrow>
      open_document lib (fst (snd (close_document self))) doc_fname =
        (Returned (length ps),
         \<lparr>num_pages = length ps,
            page_display_list_cache = replicate (length ps) None,
            page_crop_image_list_cache = replicate (length ps) None,
            document = Some \<lparr>doc_pages = ps, isClosed = False\<rparr>\<rparr>,
         []))"
proof -
  have i: "num_pages init = 0 \<and> page_display_list_cache init = [] \<and>
           page_crop_image_list_cache init = [] \<and> cache_inv init"
    by (simp add: init_def clear_cache_def cache_inv_def)
  have r: "cache_inv (fst (run lib rqs init))"
    using run_cache_inv i by blast
  have l: "cache_inv self \<longrightarrow>
      length (page_display_list_cache self) = num_pages self \<and>
      length (page_crop_image_list_cache self) = num_pages self"
    by (simp add: cache_inv_def)
  have n: "cache_inv other \<and> \<not> has_open_document other \<longrightarrow>
      num_pages other = 0 \<and> page_display_list_cache other = [] \<and>
      page_crop_image_list_cache other = []"
    using cache_inv_not_open [of other] by blast
  have c: "opened self \<and> document self = Some d \<longrightarrow>
      close_document self =
        (Returned (),
         \<lparr>num_pages = 0, page_display_list_cache = [], page_crop_image_list_cache = [],
            document = Some (d\<lparr>isClosed := True\<rparr>)\<rparr>,
         [DocumentClose]) \<and>
      \<not> has_open_document (fst (snd (close_document self)))"
    using close_document_opened [of self d] by (simp add: has_open_document_def)
  have o: "lib doc_fname = Inr ps \<longrightarrow>
      open_document lib (fst (snd (close_document self))) doc_fname =
        (Returned (length ps),
         \<lparr>num_pages = length ps,
            page_display_list_cache = replicate (length ps) None,
            page_crop_image_list_cache = replicate (length ps) None,
            document = Some \<lparr>doc_pages = ps, isClosed = False\<rparr>\<rparr>,
         [])"
    by (simp add: open_document_def Let_def)
  have p: "cache_inv self \<longrightarrow> cache_inv (fst (perform lib rq self))"
    using perform_cache_inv by blast
  show ?thesis
    using i clear_cache_cache_inv [of self] r l n c o p by blast
qed

theorem cache_lengths_follow_page_count_witness:
  "cache_inv paper_opened \<and> opened paper_opened \<and>
   document paper_opened = Some \<lparr>doc_pages = [paper_page], isClosed = False\<rparr> \<and>
   example_files ''letter.pdf'' = Inr [letter_page, letter_page] \<and>
   cache_inv (fst (perform example_files (GetPage 0 None None True) paper_opened)) \<and>
   cache_inv init \<and> \<not> has_open_document init \<and> num_pages init = 0 \<and>
   close_document paper_opened =
     (Returned (),
      \<lparr>num_pages = 0, page_display_list_cache = [], page_crop_image_list_cache = [],
         document = Some \<lparr>doc_pages = [paper_page], isClosed = True\<rparr>\<rparr>,
      [DocumentClose]) \<and>
   open_document example_files (fst (snd (close_document paper_opened))) ''letter.pdf'' =
     (Returned 2,
      \<lparr>num_pages = 2, page_display_list_cache = [None, None],
         page_crop_image_list_cache = [None, None],
         document = Some \<lparr>doc_pages = [letter_page, letter_page], isClosed = False\<rparr>\<rparr>,
      [])"
proof -
  have ci: "cache_inv paper_opened"
    by (simp add: paper_opened_eq cache_inv_def has_open_document_def)
  have d: "document paper_opened = Some \<lparr>doc_pages = [paper_page], isClosed = False\<rparr>"
    by (simp add: paper_opened_eq)
  have f: "example_files ''letter.pdf'' = Inr [letter_page, letter_page]"
    by (simp add: example_files_def)
  have ni: "\<not> has_open_document init"
    by (simp add: init_def clear_cache_def has_open_document_def)
  note t = cache_lengths_follow_page_count
        [where self = paper_opened and other = init and lib = example_files
           and rq = "GetPage 0 None None True" and rqs = "[]"
           and d = "\<lparr>doc_pages = [paper_page], isClosed = False\<rparr>"
           and doc_fname = "''letter.pdf''" and ps = "[letter_page, letter_page]"]
  have a: "cache_inv (fst (perform example_files (GetPage 0 None None True) paper_opened))"
    using t ci by blast
  have z: "cache_inv init \<and> num_pages init = 0"
    using t ni by blast
  have b: "close_document paper_opened =
     (Returned (),
      \<lparr>num_pages = 0, page_display_list_cache = [], page_crop_image_list_cache = [],
         document = Some \<lparr>doc_pages = [paper_page], isClosed = True\<rparr>\<rparr>,
      [DocumentClose])"
    using t d opened_paper_opened by simp
  have c0: "open_document example_files (fst (snd (close_document paper_opened))) ''letter.pdf'' =
     (Returned (length [letter_page, letter_page]),
      \<lparr>num_pages = length [letter_page, letter_page],
         page_display_list_cache = replicate (length [letter_page, letter_page]) None,
         page_crop_image_list_cache = replicate (length [letter_page, letter_page]) None,
         document = Some \<lparr>doc_pages = [letter_page, letter_page], isClosed = False\<rparr>\<rparr>,
      [])"
    using t f opened_paper_opened by blast
  have c: "open_document example_files (fst (snd (close_document paper_opened))) ''letter.pdf'' =
     (Returned 2,
      \<lparr>num_pages = 2, page_display_list_cache = [None, None],
         page_crop_image_list_cache = [None, None],
         document = Some \<lparr>doc_pages = [letter_page, letter_page], isClosed = False\<rparr>\<rparr>,
      [])"
    by (simp add: c0 numeral_2_eq_2)
  show ?thesis
    using ci opened_paper_opened d f a z ni b c by blast
qed

end
